theory Spec2Isabelle
  imports Complex_Main "HOL-Library.Multiset" "HOL-Library.Product_Lexorder"
begin

section \<open>Numbers of the trading bot\<close>

text \<open>
  Every quantity of \<^verbatim>\<open>main.py\<close> is an IEEE double: a Python \<^verbatim>\<open>float\<close> (or an
  integer read from JSON) or a \<^verbatim>\<open>numpy.float64\<close> read from a data frame. The model
  keeps the four kinds of double that the control flow of the source distinguishes:
  not-a-number, the two infinities and the finite values. A finite value is a
  \<^typ>\<open>real\<close>: rounding, overflow to infinity and the sign of zero are not
  modelled (a zero is the positive zero).
\<close>

datatype pyfloat = NaN | NInf | Fin real | PInf

text \<open>
  A position in a linear order, used only by the list sorts of \<open>run\<close>. On
  values other than \<open>NaN\<close> it is the order of the doubles. Python's sort has no
  defined result on keys that are \<open>NaN\<close>; \<open>NaN\<close> is put below everything
  here, and no property below is stated for a sort over such a key.
\<close>

fun rank :: "pyfloat \<Rightarrow> nat \<times> real" where
  "rank NaN = (0, 0)"
| "rank NInf = (1, 0)"
| "rank (Fin r) = (2, r)"
| "rank PInf = (3, 0)"

instantiation pyfloat :: linorder
begin

definition less_eq_pyfloat :: "pyfloat \<Rightarrow> pyfloat \<Rightarrow> bool" where
  "less_eq_pyfloat a b = (rank a \<le> rank b)"

definition less_pyfloat :: "pyfloat \<Rightarrow> pyfloat \<Rightarrow> bool" where
  "less_pyfloat a b = (rank a < rank b)"

instance
proof
  fix x y z :: pyfloat
  show "(x < y) = (x \<le> y \<and> \<not> y \<le> x)"
    unfolding less_eq_pyfloat_def less_pyfloat_def by auto
  show "x \<le> x"
    unfolding less_eq_pyfloat_def by simp
  show "x \<le> y \<Longrightarrow> y \<le> z \<Longrightarrow> x \<le> z"
    unfolding less_eq_pyfloat_def by (rule order_trans)
  show "x \<le> y \<Longrightarrow> y \<le> x \<Longrightarrow> x = y"
    unfolding less_eq_pyfloat_def by (cases x; cases y) auto
  show "x \<le> y \<or> y \<le> x"
    unfolding less_eq_pyfloat_def by (rule linear)
qed

end

text \<open>The comparisons of Python: any comparison with \<open>NaN\<close> is false.\<close>

definition flt :: "pyfloat \<Rightarrow> pyfloat \<Rightarrow> bool" where
  "flt a b = (a \<noteq> NaN \<and> b \<noteq> NaN \<and> a < b)"

definition fgt :: "pyfloat \<Rightarrow> pyfloat \<Rightarrow> bool" where
  "fgt a b = flt b a"

definition feq :: "pyfloat \<Rightarrow> pyfloat \<Rightarrow> bool" where
  "feq a b = (a \<noteq> NaN \<and> a = b)"

definition isna :: "pyfloat \<Rightarrow> bool" where
  "isna a = (a = NaN)"

text \<open>
  Python's \<^verbatim>\<open>min(a, b)\<close> keeps \<open>a\<close> unless \<open>b < a\<close>, and \<^verbatim>\<open>max(a, b)\<close>
  keeps \<open>a\<close> unless \<open>b > a\<close>: with a \<open>NaN\<close> in second place the first
  argument is returned.
\<close>

definition pymin :: "pyfloat \<Rightarrow> pyfloat \<Rightarrow> pyfloat" where
  "pymin a b = (if flt b a then b else a)"

definition pymax :: "pyfloat \<Rightarrow> pyfloat \<Rightarrow> pyfloat" where
  "pymax a b = (if fgt b a then b else a)"

fun fneg :: "pyfloat \<Rightarrow> pyfloat" where
  "fneg NaN = NaN"
| "fneg NInf = PInf"
| "fneg (Fin a) = Fin (- a)"
| "fneg PInf = NInf"

fun fabs :: "pyfloat \<Rightarrow> pyfloat" where
  "fabs NaN = NaN"
| "fabs NInf = PInf"
| "fabs (Fin a) = Fin \<bar>a\<bar>"
| "fabs PInf = PInf"

fun fadd :: "pyfloat \<Rightarrow> pyfloat \<Rightarrow> pyfloat" where
  "fadd (Fin a) (Fin b) = Fin (a + b)"
| "fadd NaN _ = NaN"
| "fadd _ NaN = NaN"
| "fadd PInf NInf = NaN"
| "fadd NInf PInf = NaN"
| "fadd PInf _ = PInf"
| "fadd _ PInf = PInf"
| "fadd NInf _ = NInf"
| "fadd _ NInf = NInf"

text \<open>The sign of a value that is not \<open>NaN\<close>, and the infinity of a sign.\<close>

fun fsgn :: "pyfloat \<Rightarrow> real" where
  "fsgn NaN = 0"
| "fsgn NInf = - 1"
| "fsgn (Fin a) = sgn a"
| "fsgn PInf = 1"

definition inf_of_sign :: "real \<Rightarrow> pyfloat" where
  "inf_of_sign s = (if 0 < s then PInf else if s < 0 then NInf else NaN)"

definition fsub :: "pyfloat \<Rightarrow> pyfloat \<Rightarrow> pyfloat" where
  "fsub a b = fadd a (fneg b)"

fun fmul :: "pyfloat \<Rightarrow> pyfloat \<Rightarrow> pyfloat" where
  "fmul (Fin a) (Fin b) = Fin (a * b)"
| "fmul NaN _ = NaN"
| "fmul _ NaN = NaN"
| "fmul x y = inf_of_sign (fsgn x * fsgn y)"

text \<open>
  Division as numpy does it (a \<^verbatim>\<open>numpy.float64\<close> on either side): a division by
  zero gives an infinity, or \<open>NaN\<close> for \<open>0 / 0\<close>, and raises nothing.
\<close>

fun fdiv :: "pyfloat \<Rightarrow> pyfloat \<Rightarrow> pyfloat" where
  "fdiv (Fin a) (Fin b) = (if b = 0 then inf_of_sign (sgn a) else Fin (a / b))"
| "fdiv NaN _ = NaN"
| "fdiv _ NaN = NaN"
| "fdiv (Fin a) _ = Fin 0"
| "fdiv x (Fin b) = inf_of_sign (fsgn x * (if b < 0 then - 1 else 1))"
| "fdiv _ _ = NaN"

datatype error =
  IndexError | KeyError | AttributeError | TypeError | UnboundLocalError | ZeroDivisionError

text \<open>Division of two Python floats: a zero divisor raises.\<close>

definition pydiv :: "pyfloat \<Rightarrow> pyfloat \<Rightarrow> error + pyfloat" where
  "pydiv a b = (if b = Fin 0 then Inl ZeroDivisionError else Inr (fdiv a b))"

section \<open>The exchange and the market data\<close>

text \<open>
  A wallet entry of the balance response. Every read of the source is
  \<^verbatim>\<open>.get('Free', 0)\<close> or \<^verbatim>\<open>.get('Lock', 0)\<close>, so an absent key is the value 0.
\<close>

record balance_info =
  Free :: pyfloat
  Lock :: pyfloat

text \<open>
  \<^verbatim>\<open>SpotWallet\<close>, a dictionary in the order of its items. A balance response
  without \<^verbatim>\<open>SpotWallet\<close> is the empty wallet; \<open>None\<close> is \<^verbatim>\<open>get_balance\<close>
  returning \<^verbatim>\<open>None\<close> after a failed request.
\<close>

type_synonym spot_wallet = "(string \<times> balance_info) list"

type_synonym balance_data = "spot_wallet option"

definition wallet_get :: "spot_wallet \<Rightarrow> string \<Rightarrow> balance_info" where
  "wallet_get w k = (case map_of w k of None \<Rightarrow> \<lparr>Free = Fin 0, Lock = Fin 0\<rparr> | Some b \<Rightarrow> b)"

text \<open>
  What \<^verbatim>\<open>get_ticker(pair)\<close> returns: \<open>NoTicker\<close> for \<^verbatim>\<open>None\<close> (the request
  failed), otherwise the truth of \<^verbatim>\<open>Success\<close> and the entry
  \<^verbatim>\<open>['Data'][pair]['LastPrice']\<close> when the response has it.
\<close>

datatype ticker = NoTicker | Ticker bool "pyfloat option"

text \<open>
  The last row of the frame that \<^verbatim>\<open>calculate_technical_indicators\<close> returns. The
  rolling statistics of pandas that fill these columns are not modelled: the annotated
  frame is an input, a list of rows in time order.
\<close>

record row =
  close :: pyfloat
  short_MA :: pyfloat
  long_MA :: pyfloat
  stdV :: pyfloat
  std_volavolatility_ratio :: pyfloat
  atr :: pyfloat

text \<open>
  The world one cycle reads: the ticker of each pair, the balance, and for each pair the
  annotated frame (\<open>None\<close> when \<^verbatim>\<open>get_ohlcv\<close> returned \<^verbatim>\<open>None\<close>, on which
  \<^verbatim>\<open>calculate_technical_indicators\<close> raises).
\<close>

record world =
  get_ticker :: "string \<Rightarrow> ticker"
  get_balance :: balance_data
  get_indicators :: "string \<Rightarrow> row list option"

section \<open>Portfolio valuation\<close>

fun total_loop :: "(string \<Rightarrow> ticker) \<Rightarrow> spot_wallet \<Rightarrow> pyfloat \<Rightarrow> error + pyfloat" where
  "total_loop tk [] total_usd = Inr total_usd"
| "total_loop tk ((c, balance_info) # rest) total_usd =
     (if c \<noteq> ''USD'' \<and> c \<noteq> ''USDT'' then
        (let total_amount = fadd (Free balance_info) (Lock balance_info) in
         if fgt total_amount (Fin 0) then
           (case tk (c @ ''/USD'') of
              Ticker True None \<Rightarrow> Inl KeyError
            | Ticker True (Some last_price) \<Rightarrow>
                total_loop tk rest (fadd total_usd (fmul total_amount last_price))
            | _ \<Rightarrow> total_loop tk rest total_usd)
         else total_loop tk rest total_usd)
      else total_loop tk rest total_usd)"

definition get_total_asset :: "(string \<Rightarrow> ticker) \<Rightarrow> balance_data \<Rightarrow> error + pyfloat" where
  "get_total_asset tk balance_data =
     (case balance_data of
        None \<Rightarrow> Inl AttributeError
      | Some spot_wallet \<Rightarrow>
          total_loop tk spot_wallet
            (fadd (Free (wallet_get spot_wallet ''USD'')) (Lock (wallet_get spot_wallet ''USD''))))"

section \<open>Position sizer and coefficient\<close>

definition calculate_max_position :: "row list \<Rightarrow> pyfloat \<Rightarrow> pyfloat \<Rightarrow> error + pyfloat" where
  "calculate_max_position df total_capital risk_coefficient =
     (if df = [] then Inl IndexError
      else
        (let current_price = close (last df);
             current_std = stdV (last df);
             ratio = std_volavolatility_ratio (last df);
             current_std = (if feq current_std (Fin 0) then fmul current_price (Fin 0.001)
                            else current_std);
             volatility_ratio = fdiv current_std current_price
         in Inr (fdiv (fmul total_capital risk_coefficient) (fdiv volatility_ratio ratio))))"

definition calculate_coefficient :: "row list \<Rightarrow> error + pyfloat" where
  "calculate_coefficient df =
     (if df = [] then Inl IndexError
      else
        (let latest = last df in
         if isna (atr latest) \<or> feq (atr latest) (Fin 0) then Inr (Fin 0)
         else
           (let ma_diff = fsub (short_MA latest) (long_MA latest);
                current_price = close (last df);
                current_std = stdV (last df);
                current_std = (if feq current_std (Fin 0) then fmul current_price (Fin 0.01)
                               else current_std);
                objective_volatility_ratio = fdiv (Fin 0.02) (std_volavolatility_ratio latest);
                objective_volatility_ratio =
                  pymax (Fin 0.9) (pymin (Fin 1.11) objective_volatility_ratio)
            in Inr (fdiv (fmul objective_volatility_ratio ma_diff) (atr latest)))))"

section \<open>The decision of one asset\<close>

text \<open>
  The dictionary that \<^verbatim>\<open>strategy\<close> returns. The five keys written on both paths
  are plain fields; a key that only the successful path writes is an option, \<open>None\<close>
  when the dictionary does not have it. \<open>coin\<close> is the key that \<^verbatim>\<open>run\<close> adds.
\<close>

record decision =
  target :: string
  action :: string
  amount :: pyfloat
  coefficient :: pyfloat
  Max_position :: pyfloat
  balance :: "pyfloat option"
  price :: "pyfloat option"
  balance_USD :: "pyfloat option"
  spending :: "pyfloat option"
  sell_price :: "pyfloat option"
  coin :: "string option"

text \<open>The dictionary of the \<^verbatim>\<open>except\<close> branch.\<close>

definition neutral :: "string \<Rightarrow> decision" where
  "neutral tgt =
     \<lparr>target = tgt, action = ''NULL'', amount = Fin 0, coefficient = Fin 0,
      Max_position = Fin 0, balance = None, price = None, balance_USD = None,
      spending = None, sell_price = None, coin = None\<rparr>"

text \<open>
  Lines 311 to 342, once \<open>price\<close>, the frame, \<open>max_position\<close> and the coefficient
  are there. The only statement of it that can raise is the division of Python floats
  in the BUY branch.
\<close>

text \<open>
  The value of the key \<^verbatim>\<open>'balance'\<close> on line 317: free plus locked units of the
  target in the wallet.
\<close>

definition held_balance :: "spot_wallet \<Rightarrow> string \<Rightarrow> pyfloat" where
  "held_balance wallet tgt = fadd (Free (wallet_get wallet tgt)) (Lock (wallet_get wallet tgt))"

definition decide ::
  "string \<Rightarrow> spot_wallet \<Rightarrow> pyfloat \<Rightarrow> pyfloat \<Rightarrow> pyfloat \<Rightarrow> row list \<Rightarrow> pyfloat \<Rightarrow> pyfloat
     \<Rightarrow> error + decision" where
  "decide tgt wallet threshold safety_coefficient pr df max_position coeff =
     (let held = held_balance wallet tgt;
          d = \<lparr>target = tgt, action = ''NULL'',
               amount = fdiv (fabs (fmul max_position coeff)) pr,
               coefficient = coeff, Max_position = max_position,
               balance = Some held, price = Some pr, balance_USD = None,
               spending = None, sell_price = None, coin = None\<rparr>;
          current_USD = Free (wallet_get wallet ''USD'');
          d = d\<lparr>balance_USD := Some (fmul held pr)\<rparr>;
          d = d\<lparr>coefficient := pymin (Fin 5) (coefficient d)\<rparr>
      in
        (case (if fgt coeff (fadd threshold (Fin 0.1)) then
                 (case pydiv (fmul current_USD safety_coefficient) pr of
                    Inl e \<Rightarrow> Inl e
                  | Inr by_cash \<Rightarrow>
                      (let a = pymin by_cash (fdiv (fabs (fmul max_position coeff)) pr)
                       in Inr (d\<lparr>action := ''BUY'', amount := a,
                                 spending := Some (fmul a pr)\<rparr>)))
               else Inr d) of
           Inl e \<Rightarrow> Inl e
         | Inr d \<Rightarrow>
             (let d = d\<lparr>sell_price := Some (fadd pr (fmul (Fin 3) (stdV (last df))))\<rparr>;
                  d = (if flt coeff threshold
                       then d\<lparr>action := ''SELL'', amount := held\<rparr> else d);
                  d = (if feq (amount d) (Fin 0) then d\<lparr>action := ''NULL''\<rparr> else d)
              in Inr (d\<lparr>spending := Some (fmul (amount d) pr)\<rparr>))))"

text \<open>
  The body of the \<^verbatim>\<open>try\<close>, in the order of the source. A ticker that failed leaves
  \<open>price\<close> unbound, which raises at its first use on line 314, after the frame, the
  total asset, the position and the coefficient were computed.
\<close>

definition strategy_body ::
  "world \<Rightarrow> string \<Rightarrow> balance_data \<Rightarrow> pyfloat \<Rightarrow> pyfloat \<Rightarrow> pyfloat \<Rightarrow> error + decision" where
  "strategy_body w tgt bal threshold safety safety_coefficient =
     (case (case get_ticker w (tgt @ ''/USD'') of
              Ticker True None \<Rightarrow> Inl KeyError
            | Ticker True (Some p) \<Rightarrow> Inr (Some p)
            | _ \<Rightarrow> Inr None) of
        Inl e \<Rightarrow> Inl e
      | Inr price_opt \<Rightarrow>
     (case get_indicators w (tgt @ ''/USD'') of
        None \<Rightarrow> Inl TypeError
      | Some df \<Rightarrow>
     (case get_total_asset (get_ticker w) bal of
        Inl e \<Rightarrow> Inl e
      | Inr total_capital \<Rightarrow>
     (case calculate_max_position df total_capital (Fin 0.05) of
        Inl e \<Rightarrow> Inl e
      | Inr max_position \<Rightarrow>
     (case calculate_coefficient df of
        Inl e \<Rightarrow> Inl e
      | Inr coeff \<Rightarrow>
     (case price_opt of
        None \<Rightarrow> Inl UnboundLocalError
      | Some pr \<Rightarrow>
     (case bal of
        None \<Rightarrow> Inl AttributeError
      | Some wallet \<Rightarrow>
          decide tgt wallet threshold safety_coefficient pr df max_position coeff)))))))"

definition strategy ::
  "world \<Rightarrow> string \<Rightarrow> balance_data \<Rightarrow> pyfloat \<Rightarrow> pyfloat \<Rightarrow> pyfloat \<Rightarrow> decision" where
  "strategy w tgt bal threshold safety safety_coefficient =
     (case strategy_body w tgt bal threshold safety safety_coefficient of
        Inl e \<Rightarrow> neutral tgt
      | Inr d \<Rightarrow> d)"

section \<open>One cycle of the loop\<close>

definition coin_list :: "string list" where
  "coin_list =
     [''BTC'', ''ETH'', ''BNB'', ''XRP'', ''DOGE'', ''ADA'', ''SOL'', ''TRX'', ''LTC'', ''DOT'',
      ''AVAX'', ''SHIB'', ''LINK'', ''UNI'', ''AAVE'', ''ICP'', ''NEAR'', ''ARB'', ''TON'', ''FIL'']"

text \<open>The \<^verbatim>\<open>for coin in coin_list\<close> loop of lines 268 to 273.\<close>

definition evaluate_coins ::
  "world \<Rightarrow> string list \<Rightarrow> pyfloat \<Rightarrow> pyfloat \<Rightarrow> pyfloat \<Rightarrow> decision list" where
  "evaluate_coins w coins sellpoint safety safety_coefficient =
     map (\<lambda>c. (strategy w c (get_balance w) sellpoint safety safety_coefficient)
                 \<lparr>coin := Some c\<rparr>) coins"

text \<open>
  Line 274. Python's \<^verbatim>\<open>list.sort\<close> is stable, and so is \<^const>\<open>sort_key\<close>.
\<close>

definition sort_by_coefficient :: "decision list \<Rightarrow> decision list" where
  "sort_by_coefficient decision_list = sort_key (\<lambda>x. fneg (coefficient x)) decision_list"

text \<open>Line 275, on the list that line 274 sorted.\<close>

definition next_sellpoint :: "decision list \<Rightarrow> error + pyfloat" where
  "next_sellpoint decision_list =
     (if length decision_list \<le> 2 then Inl IndexError
      else Inr (pymax (Fin 0.5) (fmul (coefficient (decision_list ! 2)) (Fin 0.95))))"

text \<open>Line 276: tuples compare lexicographically, and \<open>False\<close> is below \<open>True\<close>.\<close>

definition execution_order :: "decision list \<Rightarrow> decision list" where
  "execution_order decision_list =
     sort_key (\<lambda>x. (action x = ''NULL'', action x = ''BUY'', fneg (fabs (coefficient x))))
       decision_list"

text \<open>
  One pass of the \<^verbatim>\<open>while True\<close> body up to line 276, over any list of coins: the
  new sellpoint and the decisions in the order of execution. The orders placed from
  that list (lines 278 to 295) are not modelled.
\<close>

definition cycle ::
  "world \<Rightarrow> string list \<Rightarrow> pyfloat \<Rightarrow> pyfloat \<Rightarrow> pyfloat \<Rightarrow> error + pyfloat \<times> decision list" where
  "cycle w coins sellpoint safety safety_coefficient =
     (let decision_list = evaluate_coins w coins sellpoint safety safety_coefficient;
          decision_list = sort_by_coefficient decision_list
      in case next_sellpoint decision_list of
           Inl e \<Rightarrow> Inl e
         | Inr sellpoint' \<Rightarrow> Inr (sellpoint', execution_order decision_list))"

text \<open>
  The loop of \<^verbatim>\<open>run\<close> over the worlds that its first cycles meet, one world per
  cycle: for every cycle, the sellpoint its evaluations were given and the sellpoint
  it left. An exception ends \<^verbatim>\<open>run\<close>.
\<close>

fun run_from :: "pyfloat \<Rightarrow> pyfloat \<Rightarrow> pyfloat \<Rightarrow> world list \<Rightarrow> (pyfloat \<times> pyfloat) list" where
  "run_from sellpoint safety safety_coefficient [] = []"
| "run_from sellpoint safety safety_coefficient (w # ws) =
     (case cycle w coin_list sellpoint safety safety_coefficient of
        Inl e \<Rightarrow> []
      | Inr (sellpoint', executed) \<Rightarrow>
          (sellpoint, sellpoint') # run_from sellpoint' safety safety_coefficient ws)"

definition run :: "pyfloat \<Rightarrow> pyfloat \<Rightarrow> world list \<Rightarrow> (pyfloat \<times> pyfloat) list" where
  "run safety safety_coefficient ws = run_from (Fin 0) safety safety_coefficient ws"

section \<open>The valuation as the specification words it\<close>

text \<open>
  A price lookup succeeds when the ticker is there, reports \<^verbatim>\<open>Success\<close> and carries
  the last price.
\<close>

fun lookup_price :: "ticker \<Rightarrow> pyfloat option" where
  "lookup_price (Ticker True (Some p)) = Some p"
| "lookup_price _ = None"

text \<open>
  What one wallet entry adds to the total: its free plus locked quantity times its
  current price, when that quantity is positive and the price lookup succeeds;
  nothing otherwise.
\<close>

definition asset_value :: "(string \<Rightarrow> ticker) \<Rightarrow> string \<times> balance_info \<Rightarrow> pyfloat option" where
  "asset_value tk cb =
     (let total_amount = fadd (Free (snd cb)) (Lock (snd cb)) in
      if fgt total_amount (Fin 0)
      then map_option (fmul total_amount) (lookup_price (tk (fst cb @ ''/USD'')))
      else None)"

text \<open>
  The total with a list of symbols that are never priced: the cash at par, then the
  values of the other entries, added in the order of the wallet.
\<close>

definition valuation :: "string list \<Rightarrow> (string \<Rightarrow> ticker) \<Rightarrow> spot_wallet \<Rightarrow> pyfloat" where
  "valuation unpriced tk wallet =
     foldl fadd (fadd (Free (wallet_get wallet ''USD'')) (Lock (wallet_get wallet ''USD'')))
       (List.map_filter (asset_value tk) (filter (\<lambda>cb. fst cb \<notin> set unpriced) wallet))"

text \<open>
  The specification's total capital: the cash balance (USD) at par plus the value of
  every other held asset.
\<close>

definition spec_total_capital :: "(string \<Rightarrow> ticker) \<Rightarrow> spot_wallet \<Rightarrow> pyfloat" where
  "spec_total_capital tk wallet = valuation [''USD''] tk wallet"

section \<open>Concrete inputs\<close>

text \<open>
  A wallet of 1000 USD and one BTC, every pair quoted at 100, and one frame for every
  pair, given by its last row.
\<close>

definition example_wallet :: spot_wallet where
  "example_wallet =
     [(''USD'', \<lparr>Free = Fin 1000, Lock = Fin 0\<rparr>), (''BTC'', \<lparr>Free = Fin 1, Lock = Fin 0\<rparr>)]"

definition example_world :: "spot_wallet \<Rightarrow> row \<Rightarrow> world" where
  "example_world wallet r =
     \<lparr>get_ticker = (\<lambda>pair. Ticker True (Some (Fin 100))),
      get_balance = Some wallet,
      get_indicators = (\<lambda>pair. Some [r])\<rparr>"

text \<open>A last row whose ATR is 0.\<close>

definition row_atr_zero :: row where
  "row_atr_zero =
     \<lparr>close = Fin 100, short_MA = Fin 101, long_MA = Fin 100, stdV = Fin 2,
      std_volavolatility_ratio = Fin 0.02, atr = Fin 0\<rparr>"

text \<open>A last row of coefficient \<open>1 * 0.0625 / 1 = 0.0625\<close>.\<close>

definition row_weak :: row where
  "row_weak =
     \<lparr>close = Fin 100, short_MA = Fin 100.0625, long_MA = Fin 100, stdV = Fin 2,
      std_volavolatility_ratio = Fin 0.02, atr = Fin 1\<rparr>"

text \<open>A last row of coefficient \<open>1 * 10 / 1 = 10\<close>, above the cap of 5.\<close>

definition row_strong :: row where
  "row_strong =
     \<lparr>close = Fin 100, short_MA = Fin 110, long_MA = Fin 100, stdV = Fin 20,
      std_volavolatility_ratio = Fin 0.02, atr = Fin 1\<rparr>"

text \<open>A last row of coefficient \<open>1 * 2 / 1 = 2\<close>.\<close>

definition row_mid :: row where
  "row_mid =
     \<lparr>close = Fin 100, short_MA = Fin 102, long_MA = Fin 100, stdV = Fin 2,
      std_volavolatility_ratio = Fin 0.02, atr = Fin 1\<rparr>"

text \<open>
  A world with a strong BTC, a weak ETH and every other pair in between, no frame for
  LTC, and a wallet of 1000 USD and one ETH.
\<close>

definition ranked_world :: world where
  "ranked_world =
     \<lparr>get_ticker = (\<lambda>pair. Ticker True (Some (Fin 100))),
      get_balance =
        Some [(''USD'', \<lparr>Free = Fin 1000, Lock = Fin 0\<rparr>),
              (''ETH'', \<lparr>Free = Fin 1, Lock = Fin 0\<rparr>)],
      get_indicators = (\<lambda>pair. if pair = ''BTC/USD'' then Some [row_strong]
                               else if pair = ''ETH/USD'' then Some [row_weak]
                               else if pair = ''LTC/USD'' then None
                               else Some [row_mid])\<rparr>"

text \<open>A world where no request is answered.\<close>

definition silent_world :: world where
  "silent_world =
     \<lparr>get_ticker = (\<lambda>pair. NoTicker), get_balance = None, get_indicators = (\<lambda>pair. None)\<rparr>"

section \<open>Order of the doubles\<close>

lemma Fin_le_iff [simp]: "Fin a \<le> Fin b \<longleftrightarrow> a \<le> b"
  by (simp add: less_eq_pyfloat_def)

lemma Fin_less_iff [simp]: "Fin a < Fin b \<longleftrightarrow> a < b"
  by (simp add: less_pyfloat_def)

lemma NaN_least [simp]: "NaN \<le> x"
  by (cases x) (simp_all add: less_eq_pyfloat_def)

lemma PInf_greatest [simp]: "x \<le> PInf"
  by (cases x) (simp_all add: less_eq_pyfloat_def)

lemma le_NaN_iff [simp]: "x \<le> NaN \<longleftrightarrow> x = NaN"
  by (cases x) (simp_all add: less_eq_pyfloat_def)

lemma PInf_le_iff [simp]: "PInf \<le> x \<longleftrightarrow> x = PInf"
  by (cases x) (simp_all add: less_eq_pyfloat_def)

lemma NInf_le_iff [simp]: "NInf \<le> x \<longleftrightarrow> x \<noteq> NaN"
  by (cases x) (simp_all add: less_eq_pyfloat_def)

lemma le_NInf_iff [simp]: "x \<le> NInf \<longleftrightarrow> x = NaN \<or> x = NInf"
  by (cases x) (simp_all add: less_eq_pyfloat_def)

text \<open>The cap of line 322 never stores a \<open>NaN\<close>, and nothing above 5.\<close>

lemma pymin_cap: "pymin (Fin 5) c \<noteq> NaN \<and> pymin (Fin 5) c \<le> Fin 5"
  by (cases c) (auto simp: pymin_def flt_def less_pyfloat_def less_eq_pyfloat_def)

section \<open>What a decision holds\<close>

text \<open>The dictionary of lines 311 to 342 in closed form.\<close>

lemma decide_eq:
  "decide tgt wallet threshold sc pr df mp c =
     (if fgt c (fadd threshold (Fin 0.1)) \<and> pr = Fin 0 then Inl ZeroDivisionError
      else
        (let a = (if flt c threshold then held_balance wallet tgt
                  else if fgt c (fadd threshold (Fin 0.1))
                  then pymin (fdiv (fmul (Free (wallet_get wallet ''USD'')) sc) pr)
                         (fdiv (fabs (fmul mp c)) pr)
                  else fdiv (fabs (fmul mp c)) pr)
         in Inr \<lparr>target = tgt,
                 action = (if feq a (Fin 0) then ''NULL''
                           else if flt c threshold then ''SELL''
                           else if fgt c (fadd threshold (Fin 0.1)) then ''BUY'' else ''NULL''),
                 amount = a, coefficient = pymin (Fin 5) c, Max_position = mp,
                 balance = Some (held_balance wallet tgt), price = Some pr,
                 balance_USD = Some (fmul (held_balance wallet tgt) pr),
                 spending = Some (fmul a pr),
                 sell_price = Some (fadd pr (fmul (Fin 3) (stdV (last df)))),
                 coin = None\<rparr>))"
  by (simp add: decide_def Let_def pydiv_def)

lemma decide_coefficient:
  "decide tgt wallet threshold sc pr df mp c = Inr d \<Longrightarrow> coefficient d = pymin (Fin 5) c"
  by (auto simp: decide_eq Let_def split: if_splits)

lemma decide_target:
  "decide tgt wallet threshold sc pr df mp c = Inr d \<Longrightarrow> target d = tgt"
  by (auto simp: decide_eq Let_def split: if_splits)

lemma decide_action:
  "decide tgt wallet threshold sc pr df mp c = Inr d \<Longrightarrow>
     action d = (if feq (amount d) (Fin 0) then ''NULL''
                 else if flt c threshold then ''SELL''
                 else if fgt c (fadd threshold (Fin 0.1)) then ''BUY'' else ''NULL'')"
  by (auto simp: decide_eq Let_def split: if_splits)

lemma decide_amount:
  "decide tgt wallet threshold sc pr df mp c = Inr d \<Longrightarrow>
     amount d = (if flt c threshold then held_balance wallet tgt
                 else if fgt c (fadd threshold (Fin 0.1))
                 then pymin (fdiv (fmul (Free (wallet_get wallet ''USD'')) sc) pr)
                        (fdiv (fabs (fmul mp c)) pr)
                 else fdiv (fabs (fmul mp c)) pr)"
  by (auto simp: decide_eq Let_def split: if_splits)

lemma decide_sell_price:
  "decide tgt wallet threshold sc pr df mp c = Inr d \<Longrightarrow>
     sell_price d = Some (fadd pr (fmul (Fin 3) (stdV (last df))))"
  by (auto simp: decide_eq Let_def split: if_splits)

text \<open>The \<^verbatim>\<open>try\<close> body reaches line 311 exactly when every step before it succeeded.\<close>

lemma strategy_body_decide:
  assumes "get_ticker w (tgt @ ''/USD'') = Ticker True (Some pr)"
    and "get_indicators w (tgt @ ''/USD'') = Some df"
    and "get_total_asset (get_ticker w) (Some wallet) = Inr tcap"
    and "calculate_max_position df tcap (Fin 0.05) = Inr mp"
    and "calculate_coefficient df = Inr c"
  shows "strategy_body w tgt (Some wallet) threshold safety sc =
           decide tgt wallet threshold sc pr df mp c"
  using assms by (simp add: strategy_body_def)

lemma strategy_body_Inr:
  assumes "strategy_body w tgt bal threshold safety sc = Inr d"
  shows "\<exists>wallet pr df tcap mp c.
           bal = Some wallet \<and>
           get_ticker w (tgt @ ''/USD'') = Ticker True (Some pr) \<and>
           get_indicators w (tgt @ ''/USD'') = Some df \<and>
           get_total_asset (get_ticker w) bal = Inr tcap \<and>
           calculate_max_position df tcap (Fin 0.05) = Inr mp \<and>
           calculate_coefficient df = Inr c \<and>
           decide tgt wallet threshold sc pr df mp c = Inr d"
  using assms
  by (auto simp: strategy_body_def
      split: ticker.splits bool.splits option.splits sum.splits)

lemma strategy_cases:
  "strategy w tgt bal threshold safety sc = neutral tgt \<or>
   (\<exists>wallet pr df mp c.
      decide tgt wallet threshold sc pr df mp c = Inr (strategy w tgt bal threshold safety sc))"
proof (cases "strategy_body w tgt bal threshold safety sc")
  case (Inl e)
  then show ?thesis by (simp add: strategy_def)
next
  case (Inr d)
  then have "strategy w tgt bal threshold safety sc = d" by (simp add: strategy_def)
  with strategy_body_Inr [OF Inr] show ?thesis by blast
qed

lemma strategy_coefficient:
  "coefficient (strategy w tgt bal threshold safety sc) \<noteq> NaN \<and>
   coefficient (strategy w tgt bal threshold safety sc) \<le> Fin 5"
proof -
  let ?d = "strategy w tgt bal threshold safety sc"
  from strategy_cases [of w tgt bal threshold safety sc]
  have "coefficient ?d = Fin 0 \<or> (\<exists>c. coefficient ?d = pymin (Fin 5) c)"
    by (auto simp: neutral_def dest: decide_coefficient)
  then show ?thesis
  proof
    assume "coefficient ?d = Fin 0"
    then show ?thesis by simp
  next
    assume "\<exists>c. coefficient ?d = pymin (Fin 5) c"
    then obtain c where "coefficient ?d = pymin (Fin 5) c" ..
    then show ?thesis using pymin_cap [of c] by simp
  qed
qed

lemma strategy_target: "target (strategy w tgt bal threshold safety sc) = tgt"
  using strategy_cases [of w tgt bal threshold safety sc]
  by (auto simp: neutral_def dest!: decide_target)

section \<open>The position sizer\<close>

text \<open>
  C9. For every frame with a last row, every total capital and every risk coefficient,
  \<open>calculate_max_position\<close> returns
  \<open>total_capital * risk_coefficient / ((stdV' / price) / volRatio)\<close>, where \<open>stdV'\<close>
  is \<open>price * 0.001\<close> when the last \<open>stdV\<close> equals 0 and the last \<open>stdV\<close>
  otherwise; and when the last \<open>stdV\<close> is 0 the result is the one of the frame
  whose last \<open>stdV\<close> is \<open>price * 0.001\<close>.
\<close>

theorem calculate_max_position_formula:
  "calculate_max_position (rows @ [r]) total_capital risk_coefficient =
     Inr (fdiv (fmul total_capital risk_coefficient)
            (fdiv (fdiv (if feq (stdV r) (Fin 0) then fmul (close r) (Fin 0.001) else stdV r)
                     (close r))
               (std_volavolatility_ratio r)))
   \<and> (stdV r = Fin 0 \<longrightarrow>
        calculate_max_position (rows @ [r]) total_capital risk_coefficient =
        calculate_max_position (rows @ [r\<lparr>stdV := fmul (close r) (Fin 0.001)\<rparr>])
          total_capital risk_coefficient)"
  by (simp add: calculate_max_position_def Let_def feq_def)

theorem calculate_max_position_formula_witness:
  "stdV \<lparr>close = Fin 100, short_MA = Fin 100, long_MA = Fin 100, stdV = Fin 0,
          std_volavolatility_ratio = Fin 0.02, atr = Fin 1\<rparr> = Fin 0
   \<and> calculate_max_position
        [\<lparr>close = Fin 100, short_MA = Fin 100, long_MA = Fin 100, stdV = Fin 0,
          std_volavolatility_ratio = Fin 0.02, atr = Fin 1\<rparr>] (Fin 1000) (Fin 0.05)
       = Inr (Fin 1000)
   \<and> calculate_max_position
        [\<lparr>close = Fin 100, short_MA = Fin 100, long_MA = Fin 100, stdV = Fin 0.1,
          std_volavolatility_ratio = Fin 0.02, atr = Fin 1\<rparr>] (Fin 1000) (Fin 0.05)
       = Inr (Fin 1000)"
  using calculate_max_position_formula
    [of "[]" "\<lparr>close = Fin 100, short_MA = Fin 100, long_MA = Fin 100, stdV = Fin 0,
          std_volavolatility_ratio = Fin 0.02, atr = Fin 1\<rparr>" "Fin 1000" "Fin 0.05"]
  by (simp add: feq_def calculate_max_position_def Let_def)

section \<open>Evaluation at concrete inputs\<close>

lemmas eval_defs =
  strategy_def strategy_body_def example_world_def example_wallet_def silent_world_def
  row_atr_zero_def row_weak_def row_strong_def row_mid_def ranked_world_def
  get_total_asset_def wallet_get_def
  held_balance_def calculate_max_position_def calculate_coefficient_def decide_def neutral_def
  feq_def flt_def fgt_def isna_def pymin_def pymax_def pydiv_def fsub_def less_pyfloat_def
  less_eq_pyfloat_def inf_of_sign_def Let_def

section \<open>No signal: the ATR is undefined or zero\<close>

lemma coefficient_no_signal:
  "df \<noteq> [] \<Longrightarrow> isna (atr (last df)) \<or> feq (atr (last df)) (Fin 0) \<Longrightarrow>
     calculate_coefficient df = Inr (Fin 0)"
  by (simp add: calculate_coefficient_def Let_def)

text \<open>
  C1, as the code has it. For every frame whose last ATR is \<open>NaN\<close> or zero,
  \<open>calculate_coefficient\<close> returns 0 and the decision stores the coefficient 0.
  For every threshold at or above 0 the action is SELL or NULL, and it is SELL, for
  the whole held balance, exactly when the evaluation succeeds, the threshold is not
  0 and the held balance (free plus locked) is not 0. So the action is NULL under the
  threshold 0 of the first cycle and for an asset that is not held, and SELL for a
  held asset under any later threshold.
\<close>

theorem atr_undefined_or_zero:
  assumes df: "df \<noteq> []"
    and atr0: "isna (atr (last df)) \<or> feq (atr (last df)) (Fin 0)"
    and thr: "Fin 0 \<le> threshold"
    and ind: "get_indicators w (tgt @ ''/USD'') = Some df"
  shows "calculate_coefficient df = Inr (Fin 0) \<and>
         coefficient (strategy w tgt (Some wallet) threshold safety sc) = Fin 0 \<and>
         (action (strategy w tgt (Some wallet) threshold safety sc) = ''SELL'' \<or>
          action (strategy w tgt (Some wallet) threshold safety sc) = ''NULL'') \<and>
         ((action (strategy w tgt (Some wallet) threshold safety sc) = ''SELL'') =
            (\<not> isl (strategy_body w tgt (Some wallet) threshold safety sc) \<and>
             threshold \<noteq> Fin 0 \<and> \<not> feq (held_balance wallet tgt) (Fin 0))) \<and>
         ((action (strategy w tgt (Some wallet) threshold safety sc) = ''SELL'') \<longrightarrow>
            amount (strategy w tgt (Some wallet) threshold safety sc) = held_balance wallet tgt)"
proof -
  let ?d = "strategy w tgt (Some wallet) threshold safety sc"
  have c0: "calculate_coefficient df = Inr (Fin 0)"
    using df atr0 by (rule coefficient_no_signal)
  have nobuy: "\<not> fgt (Fin 0) (fadd threshold (Fin 0.1))"
    using thr by (cases threshold) (simp_all add: fgt_def flt_def less_pyfloat_def)
  have sell: "flt (Fin 0) threshold = (threshold \<noteq> Fin 0)"
    using thr by (cases threshold) (auto simp: flt_def less_pyfloat_def)
  show ?thesis
  proof (cases "strategy_body w tgt (Some wallet) threshold safety sc")
    case (Inl e)
    then have "?d = neutral tgt" by (simp add: strategy_def)
    with Inl c0 show ?thesis by (simp add: neutral_def)
  next
    case (Inr d)
    then have d: "?d = d" by (simp add: strategy_def)
    from strategy_body_Inr [OF Inr] ind c0 obtain pr mp where
      dec: "decide tgt wallet threshold sc pr df mp (Fin 0) = Inr d"
      by auto
    have "coefficient d = Fin 0"
      using decide_coefficient [OF dec] by (simp add: pymin_def flt_def)
    moreover have "amount d = (if threshold \<noteq> Fin 0 then held_balance wallet tgt
                               else fdiv (fabs (fmul mp (Fin 0))) pr)"
      by (simp only: decide_amount [OF dec] nobuy sell if_False)
    moreover have "action d = (if feq (amount d) (Fin 0) then ''NULL''
                               else if threshold \<noteq> Fin 0 then ''SELL'' else ''NULL'')"
      by (simp only: decide_action [OF dec] nobuy sell if_False)
    ultimately show ?thesis
      using c0 d Inr by auto
  qed
qed


theorem atr_undefined_or_zero_witness:
  "calculate_coefficient [row_atr_zero] = Inr (Fin 0) \<and>
   strategy (example_world example_wallet row_atr_zero) ''ETH'' (Some example_wallet)
     (Fin 0.5) (Fin 1000) (Fin 0.4) =
     \<lparr>target = ''ETH'', action = ''NULL'', amount = Fin 0, coefficient = Fin 0,
      Max_position = Fin 55, balance = Some (Fin 0), price = Some (Fin 100),
      balance_USD = Some (Fin 0), spending = Some (Fin 0), sell_price = Some (Fin 106),
      coin = None\<rparr>"
  using atr_undefined_or_zero [of "[row_atr_zero]" "Fin 0.5"
      "example_world example_wallet row_atr_zero" "''ETH''" example_wallet "Fin 1000" "Fin 0.4"]
  by (simp add: eval_defs)

text \<open>
  The claim as written fails: with the last ATR at 0, one BTC held and the threshold
  0.5, the coefficient is 0, below the threshold, and the decision is SELL of the one
  BTC.
\<close>

theorem atr_zero_sell_counterexample:
  "atr (last [row_atr_zero]) = Fin 0 \<and>
   calculate_coefficient [row_atr_zero] = Inr (Fin 0) \<and>
   strategy (example_world example_wallet row_atr_zero) ''BTC'' (Some example_wallet)
     (Fin 0.5) (Fin 1000) (Fin 0.4) =
     \<lparr>target = ''BTC'', action = ''SELL'', amount = Fin 1, coefficient = Fin 0,
      Max_position = Fin 55, balance = Some (Fin 1), price = Some (Fin 100),
      balance_USD = Some (Fin 100), spending = Some (Fin 100), sell_price = Some (Fin 106),
      coin = None\<rparr>"
  by (simp add: eval_defs)

section \<open>The action and the amount of a decision\<close>

lemma strategy_neutral_fields:
  "strategy_body w tgt bal threshold safety sc = Inl e \<Longrightarrow>
     strategy w tgt bal threshold safety sc = neutral tgt"
  by (simp add: strategy_def)

text \<open>
  C2, as the code has it. Every decision that \<open>strategy\<close> returns has one of the
  three actions BUY, SELL and NULL, and an amount equal to 0 forces the action NULL.
  The decision of a failed evaluation is NULL with amount 0. When the evaluation
  succeeds and neither the BUY condition nor the SELL condition holds, the action is
  NULL and the amount is the one the dictionary was created with,
  \<open>|max_position * coefficient| / price\<close>, which need not be 0.
\<close>

theorem decision_action_partition:
  "action (strategy w tgt bal threshold safety sc) \<in> {''BUY'', ''SELL'', ''NULL''} \<and>
   (feq (amount (strategy w tgt bal threshold safety sc)) (Fin 0) \<longrightarrow>
      action (strategy w tgt bal threshold safety sc) = ''NULL'') \<and>
   (isl (strategy_body w tgt bal threshold safety sc) \<longrightarrow>
      action (strategy w tgt bal threshold safety sc) = ''NULL'' \<and>
      amount (strategy w tgt bal threshold safety sc) = Fin 0) \<and>
   (get_ticker w (tgt @ ''/USD'') = Ticker True (Some pr) \<and>
    get_indicators w (tgt @ ''/USD'') = Some df \<and>
    bal = Some wallet \<and>
    get_total_asset (get_ticker w) bal = Inr tcap \<and>
    calculate_max_position df tcap (Fin 0.05) = Inr mp \<and>
    calculate_coefficient df = Inr c \<and>
    \<not> fgt c (fadd threshold (Fin 0.1)) \<and> \<not> flt c threshold \<longrightarrow>
      action (strategy w tgt bal threshold safety sc) = ''NULL'' \<and>
      amount (strategy w tgt bal threshold safety sc) = fdiv (fabs (fmul mp c)) pr)"
proof -
  let ?d = "strategy w tgt bal threshold safety sc"
  have p1: "action ?d \<in> {''BUY'', ''SELL'', ''NULL''}"
    using strategy_cases [of w tgt bal threshold safety sc]
    by (auto simp: neutral_def dest!: decide_action split: if_splits)
  have p2: "feq (amount ?d) (Fin 0) \<longrightarrow> action ?d = ''NULL''"
    using strategy_cases [of w tgt bal threshold safety sc]
    by (auto simp: neutral_def dest!: decide_action split: if_splits)
  have p3: "isl (strategy_body w tgt bal threshold safety sc) \<longrightarrow>
      action ?d = ''NULL'' \<and> amount ?d = Fin 0"
    by (cases "strategy_body w tgt bal threshold safety sc")
       (simp_all add: strategy_def neutral_def)
  have p4: "action ?d = ''NULL'' \<and> amount ?d = fdiv (fabs (fmul mp c)) pr"
    if h: "get_ticker w (tgt @ ''/USD'') = Ticker True (Some pr)"
      "get_indicators w (tgt @ ''/USD'') = Some df"
      "bal = Some wallet"
      "get_total_asset (get_ticker w) bal = Inr tcap"
      "calculate_max_position df tcap (Fin 0.05) = Inr mp"
      "calculate_coefficient df = Inr c"
      and nb: "\<not> fgt c (fadd threshold (Fin 0.1))" and ns: "\<not> flt c threshold"
  proof -
    have "strategy_body w tgt bal threshold safety sc =
            decide tgt wallet threshold sc pr df mp c"
      using h strategy_body_decide [of w tgt pr df wallet tcap mp c threshold safety sc]
      by simp
    then show ?thesis
      using nb ns by (simp add: strategy_def decide_eq Let_def)
  qed
  from p1 p2 p3 p4 show ?thesis by blast
qed

theorem decision_action_partition_witness:
  "strategy (example_world example_wallet row_weak) ''ETH'' (Some example_wallet)
     (Fin 0) (Fin 1000) (Fin 0.4) =
     \<lparr>target = ''ETH'', action = ''NULL'', amount = Fin (11 / 320), coefficient = Fin 0.0625,
      Max_position = Fin 55, balance = Some (Fin 0), price = Some (Fin 100),
      balance_USD = Some (Fin 0), spending = Some (Fin (55 / 16)), sell_price = Some (Fin 106),
      coin = None\<rparr> \<and>
   isl (strategy_body silent_world ''ETH'' None (Fin 0) (Fin 1000) (Fin 0.4)) \<and>
   strategy silent_world ''ETH'' None (Fin 0) (Fin 1000) (Fin 0.4) = neutral ''ETH''"
  using decision_action_partition [of "example_world example_wallet row_weak" "''ETH''"
      "Some example_wallet" "Fin 0" "Fin 1000" "Fin 0.4" "Fin 100" "[row_weak]" example_wallet
      "Fin 1100" "Fin 55" "Fin 0.0625"]
    decision_action_partition [of silent_world "''ETH''" None "Fin 0" "Fin 1000" "Fin 0.4"]
  by (simp add: eval_defs)

text \<open>
  The claim as written fails: under the threshold 0 of the first cycle, a coefficient
  of 0.0625 is neither above 0.1 nor below 0, and the decision is NULL with the amount
  \<open>55 * 0.0625 / 100\<close>.
\<close>

theorem null_with_amount_counterexample:
  "action (strategy (example_world example_wallet row_weak) ''ETH'' (Some example_wallet)
     (Fin 0) (Fin 1000) (Fin 0.4)) = ''NULL'' \<and>
   amount (strategy (example_world example_wallet row_weak) ''ETH'' (Some example_wallet)
     (Fin 0) (Fin 1000) (Fin 0.4)) = Fin (11 / 320) \<and>
   \<not> feq (amount (strategy (example_world example_wallet row_weak) ''ETH''
     (Some example_wallet) (Fin 0) (Fin 1000) (Fin 0.4))) (Fin 0) \<and>
   calculate_coefficient [row_weak] = Inr (Fin 0.0625) \<and>
   \<not> fgt (Fin 0.0625) (fadd (Fin 0) (Fin 0.1)) \<and> \<not> flt (Fin 0.0625) (Fin 0)"
  by (simp add: eval_defs)

section \<open>The sell price of a decision\<close>

text \<open>
  C5, as the code has it. Line 331 writes \<open>sell_price\<close> outside the BUY branch: a
  decision carries the key exactly when the evaluation succeeded, whatever its
  action, and then its value is \<open>price + 3 * stdV\<close>. So every BUY decision has a
  sell price, and the decision of a failed evaluation has none.
\<close>

theorem sell_price_presence:
  "(sell_price (strategy w tgt bal threshold safety sc) = None) =
     isl (strategy_body w tgt bal threshold safety sc) \<and>
   (action (strategy w tgt bal threshold safety sc) = ''BUY'' \<longrightarrow>
      sell_price (strategy w tgt bal threshold safety sc) \<noteq> None) \<and>
   (get_ticker w (tgt @ ''/USD'') = Ticker True (Some pr) \<and>
    get_indicators w (tgt @ ''/USD'') = Some df \<and>
    \<not> isl (strategy_body w tgt bal threshold safety sc) \<longrightarrow>
      sell_price (strategy w tgt bal threshold safety sc) =
        Some (fadd pr (fmul (Fin 3) (stdV (last df)))))"
proof (cases "strategy_body w tgt bal threshold safety sc")
  case (Inl e)
  then show ?thesis by (simp add: strategy_def neutral_def)
next
  case (Inr d)
  then have d: "strategy w tgt bal threshold safety sc = d" by (simp add: strategy_def)
  from strategy_body_Inr [OF Inr] obtain wallet pr' df' mp c where
    t: "get_ticker w (tgt @ ''/USD'') = Ticker True (Some pr')" and
    i: "get_indicators w (tgt @ ''/USD'') = Some df'" and
    dec: "decide tgt wallet threshold sc pr' df' mp c = Inr d"
    by blast
  from decide_sell_price [OF dec] t i d Inr show ?thesis by auto
qed

theorem sell_price_presence_witness:
  "action (strategy (example_world example_wallet row_strong) ''BTC'' (Some example_wallet)
     (Fin 0.5) (Fin 1000) (Fin 0.4)) = ''BUY'' \<and>
   sell_price (strategy (example_world example_wallet row_strong) ''BTC'' (Some example_wallet)
     (Fin 0.5) (Fin 1000) (Fin 0.4)) = Some (Fin 160) \<and>
   sell_price (strategy silent_world ''BTC'' None (Fin 0.5) (Fin 1000) (Fin 0.4)) = None"
  using sell_price_presence [of "example_world example_wallet row_strong" "''BTC''"
      "Some example_wallet" "Fin 0.5" "Fin 1000" "Fin 0.4" "Fin 100" "[row_strong]"]
    sell_price_presence [of silent_world "''BTC''" None "Fin 0.5" "Fin 1000" "Fin 0.4"]
  by (simp add: eval_defs)

text \<open>
  The claim as written fails: with the last ATR at 0 and the threshold 0.5 the decision
  for the held BTC is SELL and the one for ETH is NULL, and both carry the sell price
  \<open>100 + 3 * 2\<close>.
\<close>

theorem sell_price_on_sell_and_null_counterexample:
  "action (strategy (example_world example_wallet row_atr_zero) ''BTC'' (Some example_wallet)
     (Fin 0.5) (Fin 1000) (Fin 0.4)) = ''SELL'' \<and>
   sell_price (strategy (example_world example_wallet row_atr_zero) ''BTC''
     (Some example_wallet) (Fin 0.5) (Fin 1000) (Fin 0.4)) = Some (Fin 106) \<and>
   action (strategy (example_world example_wallet row_atr_zero) ''ETH'' (Some example_wallet)
     (Fin 0.5) (Fin 1000) (Fin 0.4)) = ''NULL'' \<and>
   sell_price (strategy (example_world example_wallet row_atr_zero) ''ETH''
     (Some example_wallet) (Fin 0.5) (Fin 1000) (Fin 0.4)) = Some (Fin 106)"
  by (simp add: eval_defs)

section \<open>The BUY branch\<close>

lemma buy_excludes_sell:
  "fgt c (fadd threshold (Fin 0.1)) \<Longrightarrow> \<not> flt c threshold"
  by (cases c; cases threshold) (auto simp: fgt_def flt_def less_pyfloat_def)

text \<open>
  C6, as the code has it. When the evaluation reaches line 311 with a nonzero price
  and the coefficient that \<open>calculate_coefficient\<close> returned is above
  \<open>threshold + 0.1\<close>, the evaluation succeeds, the amount is
  \<open>min(current_USD * safety_coefficient / price, |max_position * coefficient| / price)\<close>
  with that coefficient as returned, not capped (the cap of line 322 only changes the
  stored key), the sell price is \<open>price + 3 * stdV\<close>, and the action is BUY unless
  the amount equals 0, in which case line 340 makes it NULL.
\<close>

theorem buy_decision:
  assumes "get_ticker w (tgt @ ''/USD'') = Ticker True (Some pr)"
    and "get_indicators w (tgt @ ''/USD'') = Some df"
    and "get_total_asset (get_ticker w) (Some wallet) = Inr tcap"
    and "calculate_max_position df tcap (Fin 0.05) = Inr mp"
    and "calculate_coefficient df = Inr c"
    and buy: "fgt c (fadd threshold (Fin 0.1))"
    and pr: "pr \<noteq> Fin 0"
  shows "strategy_body w tgt (Some wallet) threshold safety sc =
           Inr (strategy w tgt (Some wallet) threshold safety sc) \<and>
         amount (strategy w tgt (Some wallet) threshold safety sc) =
           pymin (fdiv (fmul (Free (wallet_get wallet ''USD'')) sc) pr)
             (fdiv (fabs (fmul mp c)) pr) \<and>
         action (strategy w tgt (Some wallet) threshold safety sc) =
           (if feq (amount (strategy w tgt (Some wallet) threshold safety sc)) (Fin 0)
            then ''NULL'' else ''BUY'') \<and>
         sell_price (strategy w tgt (Some wallet) threshold safety sc) =
           Some (fadd pr (fmul (Fin 3) (stdV (last df)))) \<and>
         coefficient (strategy w tgt (Some wallet) threshold safety sc) = pymin (Fin 5) c"
proof -
  have body: "strategy_body w tgt (Some wallet) threshold safety sc =
                decide tgt wallet threshold sc pr df mp c"
    using assms(1-5) by (rule strategy_body_decide)
  have ns: "\<not> flt c threshold"
    using buy by (rule buy_excludes_sell)
  show ?thesis
    using buy pr ns by (simp add: strategy_def body decide_eq Let_def)
qed

theorem buy_decision_witness:
  "strategy (example_world example_wallet row_strong) ''BTC'' (Some example_wallet)
     (Fin 0.5) (Fin 1000) (Fin 0.4) =
     \<lparr>target = ''BTC'', action = ''BUY'', amount = Fin 0.55, coefficient = Fin 5,
      Max_position = Fin 5.5, balance = Some (Fin 1), price = Some (Fin 100),
      balance_USD = Some (Fin 100), spending = Some (Fin 55), sell_price = Some (Fin 160),
      coin = None\<rparr>"
  using buy_decision [of "example_world example_wallet row_strong" "''BTC''" "Fin 100"
      "[row_strong]" example_wallet "Fin 1100" "Fin 5.5" "Fin 10" "Fin 0.5" "Fin 0.4" "Fin 1000"]
  by (simp add: eval_defs)

text \<open>
  The claim as written fails twice. With a coefficient of 10 the amount is
  \<open>|5.5 * 10| / 100 = 0.55\<close>, where the capped coefficient 5 would give 0.275; and with
  no USD in the wallet the amount is 0 and the action NULL, although the coefficient is
  above \<open>threshold + 0.1\<close>.
\<close>

theorem buy_amount_counterexample:
  "calculate_coefficient [row_strong] = Inr (Fin 10) \<and>
   fgt (Fin 10) (fadd (Fin 0.5) (Fin 0.1)) \<and>
   pymin (Fin 5) (Fin 10) = Fin 5 \<and>
   amount (strategy (example_world example_wallet row_strong) ''BTC'' (Some example_wallet)
     (Fin 0.5) (Fin 1000) (Fin 0.4)) = Fin 0.55 \<and>
   pymin (fdiv (fmul (Fin 1000) (Fin 0.4)) (Fin 100))
     (fdiv (fabs (fmul (Fin 5.5) (Fin 5))) (Fin 100)) = Fin 0.275 \<and>
   action (strategy
     (example_world [(''BTC'', \<lparr>Free = Fin 1, Lock = Fin 0\<rparr>)] row_strong) ''BTC''
     (Some [(''BTC'', \<lparr>Free = Fin 1, Lock = Fin 0\<rparr>)]) (Fin 0.5) (Fin 1000) (Fin 0.4)) = ''NULL''"
  by (simp add: eval_defs)

section \<open>The total asset\<close>

text \<open>The loop of lines 159 to 167 adds the values of the entries it prices, in order.\<close>

lemma total_loop_valuation:
  assumes "\<forall>p. tk p \<noteq> Ticker True None"
  shows "total_loop tk wallet acc =
           Inr (foldl fadd acc
             (List.map_filter (asset_value tk)
               (filter (\<lambda>cb. fst cb \<notin> set [''USD'', ''USDT'']) wallet)))"
  using assms
proof (induction wallet arbitrary: acc)
  case Nil
  show ?case by (simp add: List.map_filter_simps)
next
  case (Cons cb wallet)
  obtain c b where cb: "cb = (c, b)" by (cases cb)
  show ?case
  proof (cases "tk (c @ ''/USD'')")
    case NoTicker
    then show ?thesis
      using Cons by (simp add: cb asset_value_def Let_def List.map_filter_simps)
  next
    case (Ticker ok lp)
    with Cons.prems have "ok \<longrightarrow> lp \<noteq> None" by (metis (full_types))
    then show ?thesis
      using Cons Ticker
      by (cases ok; cases lp)
         (auto simp: cb asset_value_def Let_def List.map_filter_simps)
  qed
qed


lemma wallet_get_skip:
  "c \<noteq> k \<Longrightarrow> wallet_get (pre @ (c, b) # post) k = wallet_get (pre @ post) k"
  by (induction pre) (auto simp: wallet_get_def)

text \<open>
  C7, as the code has it. Provided that every successful ticker response carries its
  last price, \<open>get_total_asset\<close> returns the free plus locked USD at par plus, for
  every wallet entry other than USD and USDT whose free plus locked quantity is
  positive and whose price lookup succeeds, that quantity times its price. USDT is
  never valued. An entry whose price lookup fails contributes nothing: the total is
  the one of the wallet without it.
\<close>

theorem get_total_asset_valuation:
  assumes "\<forall>p. tk p \<noteq> Ticker True None"
  shows "get_total_asset tk (Some wallet) = Inr (valuation [''USD'', ''USDT''] tk wallet) \<and>
         (c \<noteq> ''USD'' \<and> lookup_price (tk (c @ ''/USD'')) = None \<longrightarrow>
            get_total_asset tk (Some (pre @ (c, b) # post)) =
            get_total_asset tk (Some (pre @ post)))"
proof -
  have v: "get_total_asset tk (Some wl) = Inr (valuation [''USD'', ''USDT''] tk wl)" for wl
    using total_loop_valuation [OF assms]
    by (simp add: get_total_asset_def valuation_def)
  have "valuation [''USD'', ''USDT''] tk (pre @ (c, b) # post) =
        valuation [''USD'', ''USDT''] tk (pre @ post)"
    if "c \<noteq> ''USD''" and "lookup_price (tk (c @ ''/USD'')) = None"
    using that
    by (simp add: valuation_def wallet_get_skip List.map_filter_def asset_value_def Let_def)
  with v show ?thesis by simp
qed

theorem get_total_asset_valuation_witness:
  "get_total_asset (\<lambda>pair. Ticker True (Some (Fin 100))) (Some example_wallet) = Inr (Fin 1100) \<and>
   get_total_asset (\<lambda>pair. Ticker False None) (Some example_wallet) = Inr (Fin 1000) \<and>
   get_total_asset (\<lambda>pair. Ticker False None)
     (Some [(''USD'', \<lparr>Free = Fin 1000, Lock = Fin 0\<rparr>)]) = Inr (Fin 1000)"
  using get_total_asset_valuation [of "\<lambda>pair. Ticker True (Some (Fin 100))" example_wallet]
    get_total_asset_valuation [of "\<lambda>pair. Ticker False None" example_wallet "''BTC''"
      "[(''USD'', \<lparr>Free = Fin 1000, Lock = Fin 0\<rparr>)]" "\<lparr>Free = Fin 1, Lock = Fin 0\<rparr>" "[]"]
  by (simp add: eval_defs valuation_def asset_value_def List.map_filter_def)

text \<open>
  The claim as written fails: for a wallet of 100 USD and 50 USDT, with USDT quoted at
  1, the specification's total is 150 and \<open>get_total_asset\<close> returns 100.
\<close>

theorem usdt_not_valued_counterexample:
  "get_total_asset (\<lambda>pair. Ticker True (Some (Fin 1)))
     (Some [(''USD'', \<lparr>Free = Fin 100, Lock = Fin 0\<rparr>), (''USDT'', \<lparr>Free = Fin 50, Lock = Fin 0\<rparr>)])
     = Inr (Fin 100) \<and>
   spec_total_capital (\<lambda>pair. Ticker True (Some (Fin 1)))
     [(''USD'', \<lparr>Free = Fin 100, Lock = Fin 0\<rparr>), (''USDT'', \<lparr>Free = Fin 50, Lock = Fin 0\<rparr>)]
     = Fin 150"
  by (simp add: eval_defs spec_total_capital_def valuation_def asset_value_def
      List.map_filter_def)

section \<open>A failed evaluation\<close>

text \<open>
  C8. Whenever the body of the \<^verbatim>\<open>try\<close> raises, \<open>strategy\<close> returns the neutral
  decision: action NULL, amount 0, coefficient 0 and maximal position 0. The body
  raises when the ticker request failed, reports no success or lacks the price (the
  price is then unbound or its key missing), when there is no frame or an empty one,
  when the balance is missing or the valuation raises, and on the division by a price
  of 0 in the BUY branch. Nothing propagates: the loop over the coins gets one decision
  for every coin, in order.
\<close>

theorem strategy_failure_neutral:
  "(isl (strategy_body w tgt bal threshold safety sc) \<longrightarrow>
      strategy w tgt bal threshold safety sc = neutral tgt) \<and>
   action (neutral tgt) = ''NULL'' \<and> amount (neutral tgt) = Fin 0 \<and>
   coefficient (neutral tgt) = Fin 0 \<and> Max_position (neutral tgt) = Fin 0 \<and>
   (get_ticker w (tgt @ ''/USD'') = NoTicker \<or>
    (\<exists>lp. get_ticker w (tgt @ ''/USD'') = Ticker False lp) \<or>
    get_ticker w (tgt @ ''/USD'') = Ticker True None \<or>
    get_indicators w (tgt @ ''/USD'') = None \<or>
    get_indicators w (tgt @ ''/USD'') = Some [] \<or>
    bal = None \<or>
    isl (get_total_asset (get_ticker w) bal) \<longrightarrow>
      isl (strategy_body w tgt bal threshold safety sc)) \<and>
   (get_ticker w (tgt @ ''/USD'') = Ticker True (Some (Fin 0)) \<and>
    get_indicators w (tgt @ ''/USD'') = Some df \<and>
    get_total_asset (get_ticker w) (Some wallet) = Inr tcap \<and>
    calculate_max_position df tcap (Fin 0.05) = Inr mp \<and>
    calculate_coefficient df = Inr c \<and>
    fgt c (fadd threshold (Fin 0.1)) \<longrightarrow>
      strategy_body w tgt (Some wallet) threshold safety sc = Inl ZeroDivisionError) \<and>
   map target (evaluate_coins w coins threshold safety sc) = coins"
proof -
  have a: "isl (strategy_body w tgt bal threshold safety sc) \<longrightarrow>
      strategy w tgt bal threshold safety sc = neutral tgt"
    by (cases "strategy_body w tgt bal threshold safety sc") (simp_all add: strategy_def)
  have b: "isl (strategy_body w tgt bal threshold safety sc)"
    if "get_ticker w (tgt @ ''/USD'') = NoTicker \<or>
        (\<exists>lp. get_ticker w (tgt @ ''/USD'') = Ticker False lp) \<or>
        get_ticker w (tgt @ ''/USD'') = Ticker True None \<or>
        get_indicators w (tgt @ ''/USD'') = None \<or>
        get_indicators w (tgt @ ''/USD'') = Some [] \<or>
        bal = None \<or>
        isl (get_total_asset (get_ticker w) bal)"
    using that
    by (auto simp: strategy_body_def get_total_asset_def calculate_max_position_def
        split: ticker.splits bool.splits option.splits sum.splits)
  have c: "map target (evaluate_coins w coins threshold safety sc) = coins"
    by (simp add: evaluate_coins_def strategy_target comp_def)
  have d: "strategy_body w tgt (Some wallet) threshold safety sc = Inl ZeroDivisionError"
    if "get_ticker w (tgt @ ''/USD'') = Ticker True (Some (Fin 0))"
      "get_indicators w (tgt @ ''/USD'') = Some df"
      "get_total_asset (get_ticker w) (Some wallet) = Inr tcap"
      "calculate_max_position df tcap (Fin 0.05) = Inr mp"
      "calculate_coefficient df = Inr c"
      "fgt c (fadd threshold (Fin 0.1))"
    using that by (simp add: strategy_body_decide decide_eq)
  from a b c d show ?thesis by (simp add: neutral_def)
qed

theorem strategy_failure_neutral_witness:
  "isl (strategy_body silent_world ''BTC'' None (Fin 0.5) (Fin 1000) (Fin 0.4)) \<and>
   strategy silent_world ''BTC'' None (Fin 0.5) (Fin 1000) (Fin 0.4) =
     \<lparr>target = ''BTC'', action = ''NULL'', amount = Fin 0, coefficient = Fin 0,
      Max_position = Fin 0, balance = None, price = None, balance_USD = None,
      spending = None, sell_price = None, coin = None\<rparr> \<and>
   map target (evaluate_coins silent_world [''BTC'', ''ETH''] (Fin 0.5) (Fin 1000) (Fin 0.4)) =
     [''BTC'', ''ETH'']"
  using strategy_failure_neutral [where w = silent_world and tgt = "''BTC''" and bal = None
      and threshold = "Fin 0.5" and safety = "Fin 1000" and sc = "Fin 0.4"
      and coins = "[''BTC'', ''ETH'']"]
  by (simp add: eval_defs)

section \<open>The next threshold\<close>

lemma fneg_antimono: "a \<noteq> NaN \<Longrightarrow> b \<noteq> NaN \<Longrightarrow> fneg a \<le> fneg b \<longleftrightarrow> b \<le> a"
  by (cases a; cases b) (simp_all add: less_eq_pyfloat_def)

lemma fneg_not_NaN: "fneg a = NaN \<longleftrightarrow> a = NaN"
  by (cases a) simp_all

lemma fabs_not_NaN: "fabs a = NaN \<longleftrightarrow> a = NaN"
  by (cases a) simp_all

text \<open>Sorting by the negated coefficient lists the coefficients in descending order.\<close>

lemma sort_by_coefficient_desc:
  assumes "\<forall>d\<in>set ds. coefficient d \<noteq> NaN"
  shows "map coefficient (sort_by_coefficient ds) = rev (sort (map coefficient ds))"
proof -
  let ?s = "sort_by_coefficient ds"
  have set: "set ?s = set ds" by (simp add: sort_by_coefficient_def)
  have "sorted (map (\<lambda>x. fneg (coefficient x)) ?s)"
    unfolding sort_by_coefficient_def by (rule sorted_sort_key)
  then have "sorted_wrt (\<lambda>x y. fneg (coefficient x) \<le> fneg (coefficient y)) ?s"
    by (simp add: sorted_wrt_map)
  then have "sorted_wrt (\<lambda>x y. coefficient y \<le> coefficient x) ?s"
    by (rule sorted_wrt_mono_rel [rotated]) (use assms set in \<open>simp add: fneg_antimono\<close>)
  then have "sorted (rev (map coefficient ?s))"
    by (simp add: sorted_wrt_rev sorted_wrt_map)
  moreover have "mset (rev (map coefficient ?s)) = mset (map coefficient ds)"
    by (simp add: sort_by_coefficient_def)
  ultimately have "sort (map coefficient ds) = rev (map coefficient ?s)"
    by (rule properties_for_sort [rotated])
  then show ?thesis by simp
qed

lemma pymax_eq_max: "a \<noteq> NaN \<Longrightarrow> b \<noteq> NaN \<Longrightarrow> pymax a b = max a b"
  by (auto simp: pymax_def fgt_def flt_def max_def)

lemma fmul_Fin_not_NaN: "a \<noteq> NaN \<Longrightarrow> 0 < r \<Longrightarrow> fmul a (Fin r) \<noteq> NaN"
  by (cases a) (simp_all add: inf_of_sign_def)

lemma next_sellpoint_third:
  assumes nan: "\<forall>d\<in>set ds. coefficient d \<noteq> NaN" and len: "3 \<le> length ds"
  shows "next_sellpoint (sort_by_coefficient ds) =
           Inr (max (Fin 0.5) (fmul (rev (sort (map coefficient ds)) ! 2) (Fin 0.95)))"
proof -
  let ?s = "sort_by_coefficient ds"
  have l: "length ?s = length ds" by (simp add: sort_by_coefficient_def)
  have "?s ! 2 \<in> set ?s" using len l by simp
  then have "?s ! 2 \<in> set ds" by (simp add: sort_by_coefficient_def)
  then have c: "coefficient (?s ! 2) \<noteq> NaN" using nan by blast
  have "rev (sort (map coefficient ds)) ! 2 = map coefficient ?s ! 2"
    by (simp only: sort_by_coefficient_desc [OF nan])
  also have "\<dots> = coefficient (?s ! 2)" using len l by simp
  finally have third: "rev (sort (map coefficient ds)) ! 2 = coefficient (?s ! 2)" .
  have "fmul (coefficient (?s ! 2)) (Fin 0.95) \<noteq> NaN"
    using c by (rule fmul_Fin_not_NaN) simp
  then have "pymax (Fin 0.5) (fmul (coefficient (?s ! 2)) (Fin 0.95)) =
             max (Fin 0.5) (fmul (coefficient (?s ! 2)) (Fin 0.95))"
    by (intro pymax_eq_max) simp_all
  then show ?thesis
    using len l by (simp add: next_sellpoint_def third)
qed

lemma evaluate_coins_not_NaN:
  "\<forall>d\<in>set (evaluate_coins w coins sp safety sc). coefficient d \<noteq> NaN \<and> coefficient d \<le> Fin 5"
  by (auto simp: evaluate_coins_def strategy_coefficient)

lemma length_evaluate_coins [simp]:
  "length (evaluate_coins w coins sp safety sc) = length coins"
  by (simp add: evaluate_coins_def)

text \<open>
  C3. For every cycle over at least three coins, the sellpoint that the cycle leaves is
  the greater of 0.5 and 0.95 times the third highest coefficient among the decisions
  of the cycle (the third element of their coefficients sorted in descending order).
\<close>

theorem threshold_recurrence:
  assumes "3 \<le> length coins"
  shows "map_sum id fst (cycle w coins sellpoint safety sc) =
           Inr (max (Fin 0.5)
             (fmul (rev (sort (map coefficient (evaluate_coins w coins sellpoint safety sc))) ! 2)
                (Fin 0.95)))"
proof -
  let ?ds = "evaluate_coins w coins sellpoint safety sc"
  have "\<forall>d\<in>set ?ds. coefficient d \<noteq> NaN"
    using evaluate_coins_not_NaN [of w coins sellpoint safety sc] by blast
  moreover have "3 \<le> length ?ds" using assms by simp
  ultimately have "next_sellpoint (sort_by_coefficient ?ds) =
      Inr (max (Fin 0.5) (fmul (rev (sort (map coefficient ?ds)) ! 2) (Fin 0.95)))"
    by (rule next_sellpoint_third)
  then show ?thesis by (simp add: cycle_def Let_def)
qed



theorem threshold_recurrence_witness:
  "map coefficient
     (evaluate_coins ranked_world [''ETH'', ''BNB'', ''BTC'', ''XRP''] (Fin 0) (Fin 1000) (Fin 0.4)) =
     [Fin 0.0625, Fin 2, Fin 5, Fin 2] \<and>
   map_sum id fst
     (cycle ranked_world [''ETH'', ''BNB'', ''BTC'', ''XRP''] (Fin 0) (Fin 1000) (Fin 0.4)) =
     Inr (Fin 1.9)"
  using threshold_recurrence [of "[''ETH'', ''BNB'', ''BTC'', ''XRP'']" ranked_world "Fin 0"
      "Fin 1000" "Fin 0.4"]
  by (simp add: eval_defs evaluate_coins_def max_def)

section \<open>The order of execution\<close>

lemma sorted_nth_le:
  "sorted (map f xs) \<Longrightarrow> i < j \<Longrightarrow> j < length xs \<Longrightarrow> f (xs ! i) \<le> f (xs ! j)"
  using sorted_nth_mono [of "map f xs" i j] by simp

text \<open>
  C4. For every list of decisions whose coefficients are numbers (as every coefficient
  that \<open>strategy\<close> stores is), the sort of line 276 permutes the list so that, for
  any two positions \<open>i < j\<close>: a BUY at \<open>i\<close> is never followed by a SELL at
  \<open>j\<close>, a NULL at \<open>i\<close> is only followed by NULL, and of two decisions of the same
  action the earlier has the greater or equal \<open>|coefficient|\<close>.
\<close>

theorem execution_order_ranking:
  assumes nan: "\<forall>d\<in>set ds. coefficient d \<noteq> NaN"
    and ij: "i < j" "j < length ds"
  shows "mset (execution_order ds) = mset ds \<and>
         \<not> (action (execution_order ds ! i) = ''BUY'' \<and>
            action (execution_order ds ! j) = ''SELL'') \<and>
         (action (execution_order ds ! i) = ''NULL'' \<longrightarrow>
            action (execution_order ds ! j) = ''NULL'') \<and>
         (action (execution_order ds ! i) = action (execution_order ds ! j) \<longrightarrow>
            fabs (coefficient (execution_order ds ! j)) \<le>
            fabs (coefficient (execution_order ds ! i)))"
proof -
  let ?k = "\<lambda>x. (action x = ''NULL'', action x = ''BUY'', fneg (fabs (coefficient x)))"
  let ?s = "execution_order ds"
  have l: "length ?s = length ds" by (simp add: execution_order_def)
  have set: "set ?s = set ds" by (simp add: execution_order_def)
  have "sorted (map ?k ?s)"
    unfolding execution_order_def by (rule sorted_sort_key)
  then have le: "?k (?s ! i) \<le> ?k (?s ! j)"
    using ij l by (intro sorted_nth_le) simp_all
  have "?s ! i \<in> set ?s" "?s ! j \<in> set ?s" using ij l by simp_all
  then have ci: "fabs (coefficient (?s ! i)) \<noteq> NaN" and cj: "fabs (coefficient (?s ! j)) \<noteq> NaN"
    using nan set by (simp_all add: fabs_not_NaN)
  have m: "mset ?s = mset ds" by (simp add: execution_order_def)
  have a: "\<not> (action (?s ! i) = ''BUY'' \<and> action (?s ! j) = ''SELL'')"
    using le by (auto simp: less_eq_prod_def)
  have b: "action (?s ! i) = ''NULL'' \<longrightarrow> action (?s ! j) = ''NULL''"
    using le by (auto simp: less_eq_prod_def)
  have c: "action (?s ! i) = action (?s ! j) \<longrightarrow>
           fabs (coefficient (?s ! j)) \<le> fabs (coefficient (?s ! i))"
  proof
    assume "action (?s ! i) = action (?s ! j)"
    with le have "fneg (fabs (coefficient (?s ! i))) \<le> fneg (fabs (coefficient (?s ! j)))"
      by (auto simp: less_eq_prod_def)
    then show "fabs (coefficient (?s ! j)) \<le> fabs (coefficient (?s ! i))"
      using ci cj by (simp add: fneg_antimono)
  qed
  from m a b c show ?thesis by blast
qed



theorem execution_order_ranking_witness:
  "map (\<lambda>d. (target d, action d, coefficient d))
     (evaluate_coins ranked_world [''LTC'', ''BNB'', ''ETH'', ''BTC'', ''XRP'']
        (Fin 0.5) (Fin 1000) (Fin 0.4)) =
     [(''LTC'', ''NULL'', Fin 0), (''BNB'', ''BUY'', Fin 2), (''ETH'', ''SELL'', Fin 0.0625),
      (''BTC'', ''BUY'', Fin 5), (''XRP'', ''BUY'', Fin 2)] \<and>
   map (\<lambda>d. (target d, action d, coefficient d))
     (execution_order
        (evaluate_coins ranked_world [''LTC'', ''BNB'', ''ETH'', ''BTC'', ''XRP'']
           (Fin 0.5) (Fin 1000) (Fin 0.4))) =
     [(''ETH'', ''SELL'', Fin 0.0625), (''BTC'', ''BUY'', Fin 5), (''BNB'', ''BUY'', Fin 2),
      (''XRP'', ''BUY'', Fin 2), (''LTC'', ''NULL'', Fin 0)]"
  using execution_order_ranking [of "evaluate_coins ranked_world
      [''LTC'', ''BNB'', ''ETH'', ''BTC'', ''XRP''] (Fin 0.5) (Fin 1000) (Fin 0.4)" 0 1]
  by (simp add: eval_defs evaluate_coins_def execution_order_def less_eq_prod_def
      less_prod_def)

section \<open>The sellpoint over the cycles\<close>

lemma sellpoint_bounds:
  assumes "c \<noteq> NaN" and "c \<le> Fin 5"
  shows "Fin 0.5 \<le> pymax (Fin 0.5) (fmul c (Fin 0.95)) \<and>
         pymax (Fin 0.5) (fmul c (Fin 0.95)) \<le> Fin 4.75"
  using assms
  by (cases c) (auto simp: pymax_def fgt_def flt_def inf_of_sign_def less_pyfloat_def)

lemma next_sellpoint_bounds:
  assumes "\<forall>d\<in>set ds. coefficient d \<noteq> NaN \<and> coefficient d \<le> Fin 5"
    and "next_sellpoint ds = Inr sp"
  shows "Fin 0.5 \<le> sp \<and> sp \<le> Fin 4.75"
proof -
  from assms(2) have len: "2 < length ds"
    and sp: "sp = pymax (Fin 0.5) (fmul (coefficient (ds ! 2)) (Fin 0.95))"
    by (auto simp: next_sellpoint_def split: if_splits)
  from len have "ds ! 2 \<in> set ds" by simp
  with assms(1) have "coefficient (ds ! 2) \<noteq> NaN" "coefficient (ds ! 2) \<le> Fin 5"
    by blast+
  then show ?thesis unfolding sp by (rule sellpoint_bounds)
qed

lemma cycle_bounds:
  assumes "cycle w coins sellpoint safety sc = Inr (sp, executed)"
  shows "Fin 0.5 \<le> sp \<and> sp \<le> Fin 4.75"
proof -
  let ?ds = "sort_by_coefficient (evaluate_coins w coins sellpoint safety sc)"
  from assms have ns: "next_sellpoint ?ds = Inr sp"
    by (auto simp: cycle_def Let_def split: sum.splits)
  have "\<forall>d\<in>set ?ds. coefficient d \<noteq> NaN \<and> coefficient d \<le> Fin 5"
    using evaluate_coins_not_NaN [of w coins sellpoint safety sc]
    by (simp add: sort_by_coefficient_def)
  then show ?thesis using ns by (rule next_sellpoint_bounds)
qed

lemma cycle_coin_list_succeeds:
  "\<exists>sp executed. cycle w coin_list sellpoint safety sc = Inr (sp, executed)"
  by (simp add: cycle_def Let_def next_sellpoint_def sort_by_coefficient_def coin_list_def)

lemma run_from_length: "length (run_from sellpoint safety sc ws) = length ws"
proof (induction ws arbitrary: sellpoint)
  case Nil
  show ?case by simp
next
  case (Cons w ws)
  from cycle_coin_list_succeeds [of w sellpoint safety sc]
  obtain sp executed where "cycle w coin_list sellpoint safety sc = Inr (sp, executed)"
    by blast
  with Cons show ?case by simp
qed

lemma run_from_bounds:
  "\<forall>ts\<in>set (run_from sellpoint safety sc ws). Fin 0.5 \<le> snd ts \<and> snd ts \<le> Fin 4.75"
proof (induction ws arbitrary: sellpoint)
  case Nil
  show ?case by simp
next
  case (Cons w ws)
  show ?case
  proof (cases "cycle w coin_list sellpoint safety sc")
    case (Inl e)
    then show ?thesis by simp
  next
    case (Inr r)
    obtain sp executed where r: "r = (sp, executed)" by (cases r)
    from Inr r cycle_bounds have "Fin 0.5 \<le> sp \<and> sp \<le> Fin 4.75" by blast
    with Cons Inr r show ?thesis by simp
  qed
qed

lemma run_from_chain:
  "Suc i < length (run_from sellpoint safety sc ws) \<Longrightarrow>
     fst (run_from sellpoint safety sc ws ! Suc i) = snd (run_from sellpoint safety sc ws ! i)"
proof (induction ws arbitrary: sellpoint i)
  case Nil
  then show ?case by simp
next
  case (Cons w ws)
  show ?case
  proof (cases "cycle w coin_list sellpoint safety sc")
    case (Inl e)
    with Cons.prems show ?thesis by simp
  next
    case (Inr r)
    obtain sp executed where r: "r = (sp, executed)" by (cases r)
    show ?thesis
    proof (cases i)
      case 0
      with Cons.prems Inr r show ?thesis
        by (cases ws) (auto split: sum.splits)
    next
      case (Suc k)
      with Cons.prems Inr r Cons.IH [of k sp] show ?thesis by simp
    qed
  qed
qed

text \<open>
  C10. \<^verbatim>\<open>run\<close> seeds the sellpoint with 0, so the evaluations of its first cycle are
  given the threshold 0, which is below the floor 0.5; the cycles over the twenty coins
  never fail at the update of line 275; after every update the sellpoint lies in
  \<open>[0.5, 4.75]\<close> and is the threshold of the next cycle; and every coefficient that a
  cycle stores is a number not above 5.
\<close>

theorem sellpoint_invariant:
  "length (run safety sc ws) = length ws \<and>
   (ws \<noteq> [] \<longrightarrow> fst (run safety sc ws ! 0) = Fin 0 \<and> Fin 0 < Fin 0.5) \<and>
   (\<forall>i. i < length ws \<longrightarrow>
      Fin 0.5 \<le> snd (run safety sc ws ! i) \<and> snd (run safety sc ws ! i) \<le> Fin 4.75) \<and>
   (\<forall>i. Suc i < length ws \<longrightarrow>
      fst (run safety sc ws ! Suc i) = snd (run safety sc ws ! i)) \<and>
   (\<forall>d\<in>set (evaluate_coins w coin_list sellpoint safety sc).
      coefficient d \<noteq> NaN \<and> coefficient d \<le> Fin 5)"
proof -
  have l: "length (run safety sc ws) = length ws"
    by (simp add: run_def run_from_length)
  have first: "fst (run safety sc ws ! 0) = Fin 0" if "ws \<noteq> []"
  proof -
    from that obtain w' ws' where ws: "ws = w' # ws'" by (cases ws) auto
    from cycle_coin_list_succeeds [of w' "Fin 0" safety sc]
    obtain sp executed where "cycle w' coin_list (Fin 0) safety sc = Inr (sp, executed)"
      by blast
    then show ?thesis by (simp add: run_def ws)
  qed
  have b: "Fin 0.5 \<le> snd (run safety sc ws ! i) \<and> snd (run safety sc ws ! i) \<le> Fin 4.75"
    if "i < length ws" for i
  proof -
    from that l have "run safety sc ws ! i \<in> set (run safety sc ws)" by simp
    then show ?thesis using run_from_bounds [of "Fin 0" safety sc ws] by (simp add: run_def)
  qed
  have c: "fst (run safety sc ws ! Suc i) = snd (run safety sc ws ! i)"
    if "Suc i < length ws" for i
    using that l run_from_chain [of i "Fin 0" safety sc ws] by (simp add: run_def)
  from l first b c evaluate_coins_not_NaN [of w coin_list sellpoint safety sc]
  show ?thesis by simp
qed


theorem sellpoint_invariant_witness:
  "run (Fin 1000) (Fin 0.4)
     [example_world example_wallet row_strong, example_world example_wallet row_weak] =
     [(Fin 0, Fin 4.75), (Fin 4.75, Fin 0.5)]"
  using sellpoint_invariant [where ws = "[example_world example_wallet row_strong,
      example_world example_wallet row_weak]" and safety = "Fin 1000" and sc = "Fin 0.4"
      and w = "example_world example_wallet row_strong" and sellpoint = "Fin 0"]
  by (simp add: run_def cycle_def next_sellpoint_def sort_by_coefficient_def coin_list_def
      evaluate_coins_def eval_defs)

end
